theory Spec2Isabelle
  imports
    Main
    "HOL-Library.Word"
    "HOL-Library.AList"
    "HOL-Library.Multiset"
    "HOL-Library.Monad_Syntax"
begin

section \<open>Go values\<close>

text \<open>
  The source is \<^verbatim>\<open>src/compose/config_convert.go\<close>. A Go pointer, slice or map is
  either \<^verbatim>\<open>nil\<close> or holds a value; the code tests \<^verbatim>\<open>x != nil\<close> on all three
  kinds, so all three are modelled by one type.
\<close>

datatype 'a nilable = nil | val 'a

text \<open>
  A run-time panic is the result \<open>None\<close>. The only operation of the source that can
  panic is reading through a pointer (\<^verbatim>\<open>*p\<close>, \<^verbatim>\<open>p.Field\<close>), which panics on
  \<^verbatim>\<open>nil\<close>.
\<close>

fun deref :: "'a nilable \<Rightarrow> 'a option" where
  "deref nil = None"
| "deref (val v) = Some v"

text \<open>\<^verbatim>\<open>for _, x := range s\<close> runs over the elements of \<open>s\<close>, none when \<open>s\<close> is nil;
  \<^verbatim>\<open>len(s)\<close> of a nil slice is 0.\<close>

fun elems :: "'a list nilable \<Rightarrow> 'a list" where
  "elems nil = []"
| "elems (val xs) = xs"

definition len :: "'a list nilable \<Rightarrow> nat" where
  "len s = length (elems s)"

text \<open>
  A Go map that the code ranges over is an association list: the order of the list is
  the order in which this run of \<^verbatim>\<open>range\<close> visits the entries, which Go leaves
  unspecified. Keys of a Go map are distinct; no definition below relies on it.
\<close>

type_synonym ('k, 'v) go_map = "('k \<times> 'v) list"

text \<open>\<^verbatim>\<open>v, ok := m[k]\<close>; reading a nil map finds nothing.\<close>

fun map_index :: "('k, 'v) go_map nilable \<Rightarrow> 'k \<Rightarrow> 'v option" where
  "map_index nil k = None"
| "map_index (val m) k = map_of m k"

text \<open>\<^verbatim>\<open>strings.HasPrefix(s, prefix)\<close> and \<^verbatim>\<open>strings.Contains(s, substr)\<close>.\<close>

definition HasPrefix :: "string \<Rightarrow> string \<Rightarrow> bool" where
  "HasPrefix s pre = (length s \<ge> length pre \<and> take (length pre) s = pre)"

fun Contains :: "string \<Rightarrow> string \<Rightarrow> bool" where
  "Contains [] substr = (substr = [])"
| "Contains (c # s) substr = (HasPrefix (c # s) substr \<or> Contains s substr)"

type_synonym int64 = "64 word"

section \<open>The container specification\<close>

text \<open>
  Modelled from the spec: the type \<^verbatim>\<open>ConfigMemory\<close> and its method \<^verbatim>\<open>Int64\<close> are
  declared outside \<^verbatim>\<open>config_convert.go\<close>. The spec calls the limit a sized quantity
  convertible to a byte count (int64 bytes), says that an absent limit leaves the output
  field untouched, and that the projections have no failure path. The method is called
  on a nil receiver by \<^verbatim>\<open>GetApiHostConfig\<close>, whose result it assigns
  unconditionally; so on a nil receiver it returns the value an untouched int64 field
  holds, 0, and on a limit its byte count.
\<close>

type_synonym ConfigMemory = int64

fun Int64 :: "ConfigMemory nilable \<Rightarrow> int64" where
  "Int64 nil = 0"
| "Int64 (val m) = m"

record ConfigCmd =
  Parts :: "string list nilable"

record PortBinding =
  Port :: string
  HostIp :: string
  HostPort :: string

record ConfigUlimit =
  Name :: string
  Soft :: int64
  Hard :: int64

text \<open>
  \<^verbatim>\<open>ConfigContainer\<close>, with the fields that \<^verbatim>\<open>config_convert.go\<close> reads. The types
  \<^verbatim>\<open>RestartPolicy\<close> and \<^verbatim>\<open>ContainerName\<close> are declared elsewhere in the repository
  and only handed to their own methods, so they are the type parameters \<open>'rp\<close> and
  \<open>'cn\<close>. The field types are those the source's uses fix: a field tested against
  nil and read through \<^verbatim>\<open>*\<close> is a pointer, a field ranged over is a slice or a map.
  The elements of the port and ulimit slices are structures, as the source reads their
  fields.
\<close>

record ('rp, 'cn) ConfigContainer =
  Image' :: "string nilable"
  Cmd :: "ConfigCmd nilable"
  Entrypoint :: "string list nilable"
  Hostname :: "string nilable"
  Domainname :: "string nilable"
  Workdir :: "string nilable"
  User :: "string nilable"
  Memory :: "ConfigMemory nilable"
  MemorySwap :: "ConfigMemory nilable"
  CpusetCpus :: "string nilable"
  CpuShares :: "int64 nilable"
  NetworkDisabled :: "bool nilable"
  Expose :: "string list nilable"
  Env :: "(string, string) go_map nilable"
  Volumes :: "string list nilable"
  Labels :: "(string, string) go_map nilable"
  Dns :: "string list nilable"
  AddHost :: "string list nilable"
  Restart :: "'rp nilable"
  Net :: "string nilable"
  Pid :: "string nilable"
  Privileged :: "bool nilable"
  PublishAllPorts :: "bool nilable"
  Ports :: "PortBinding list nilable"
  Links :: "'cn list nilable"
  VolumesFrom :: "'cn list nilable"
  Ulimits :: "ConfigUlimit list nilable"

section \<open>The runtime's structures\<close>

text \<open>
  \<^verbatim>\<open>docker.Config\<close>, \<^verbatim>\<open>docker.HostConfig\<close> and \<^verbatim>\<open>docker.Container\<close> of the client
  library, with the fields the source reads or writes. A map with \<^verbatim>\<open>struct{}\<close>
  values is a set of its keys; \<^verbatim>\<open>docker.Port\<close> is a string.
\<close>

record docker_Config =
  cfg_Hostname :: string
  cfg_Domainname :: string
  cfg_User :: string
  cfg_Memory :: int64
  cfg_MemorySwap :: int64
  cfg_CPUShares :: int64
  cfg_CPUSet :: string
  cfg_ExposedPorts :: "string set nilable"
  cfg_Env :: "string list nilable"
  cfg_Cmd :: "string list nilable"
  cfg_Image :: string
  cfg_Volumes :: "string set nilable"
  cfg_WorkingDir :: string
  cfg_Entrypoint :: "string list nilable"
  cfg_NetworkDisabled :: bool
  cfg_Labels :: "(string, string) go_map nilable"

text \<open>\<^verbatim>\<open>docker.Config{}\<close>: every field holds the zero value of its type, which is what
  a field that is never assigned keeps.\<close>

definition zero_Config :: docker_Config where
  "zero_Config =
     \<lparr>cfg_Hostname = [], cfg_Domainname = [], cfg_User = [], cfg_Memory = 0,
      cfg_MemorySwap = 0, cfg_CPUShares = 0, cfg_CPUSet = [], cfg_ExposedPorts = nil,
      cfg_Env = nil, cfg_Cmd = nil, cfg_Image = [], cfg_Volumes = nil,
      cfg_WorkingDir = [], cfg_Entrypoint = nil, cfg_NetworkDisabled = False,
      cfg_Labels = nil\<rparr>"

record docker_RestartPolicy =
  rp_Name :: string
  rp_MaximumRetryCount :: int

record docker_PortBinding =
  pb_HostIP :: string
  pb_HostPort :: string

record docker_ULimit =
  ul_Name :: string
  ul_Soft :: int64
  ul_Hard :: int64

record docker_HostConfig =
  hc_Binds :: "string list nilable"
  hc_Links :: "string list nilable"
  hc_PortBindings :: "(string \<rightharpoonup> docker_PortBinding list) nilable"
  hc_Privileged :: bool
  hc_PublishAllPorts :: bool
  hc_DNS :: "string list nilable"
  hc_ExtraHosts :: "string list nilable"
  hc_VolumesFrom :: "string list nilable"
  hc_NetworkMode :: string
  hc_PidMode :: string
  hc_RestartPolicy :: docker_RestartPolicy
  hc_Ulimits :: "docker_ULimit list nilable"
  hc_Memory :: int64
  hc_MemorySwap :: int64
  hc_CPUSet :: string

definition zero_HostConfig :: docker_HostConfig where
  "zero_HostConfig =
     \<lparr>hc_Binds = nil, hc_Links = nil, hc_PortBindings = nil, hc_Privileged = False,
      hc_PublishAllPorts = False, hc_DNS = nil, hc_ExtraHosts = nil, hc_VolumesFrom = nil,
      hc_NetworkMode = [], hc_PidMode = [],
      hc_RestartPolicy = \<lparr>rp_Name = [], rp_MaximumRetryCount = 0\<rparr>,
      hc_Ulimits = nil, hc_Memory = 0, hc_MemorySwap = 0, hc_CPUSet = []\<rparr>"

text \<open>The runtime descriptor: \<^verbatim>\<open>docker.Container\<close>, as the runtime's inspect call
  reports it, that is, with its \<^verbatim>\<open>Config\<close> section present. The label map of the
  section may be nil.\<close>

record docker_Container =
  ct_Name :: string
  ct_Config :: docker_Config

section \<open>Extraction: \<^verbatim>\<open>NewContainerConfigFromDocker\<close>\<close>

text \<open>
  The two \<^verbatim>\<open>fmt.Errorf\<close> calls of the function are the two errors it can return.
  \<open>Error\<close> is the message each one carries.
\<close>

datatype error =
  ConfigMissing
| ConfigParseError string string

fun Error :: "error \<Rightarrow> string" where
  "Error ConfigMissing =
     ''Expecting container to have label '' @ [CHR 0x27] @ ''rocker-compose-config''
       @ [CHR 0x27] @ '' to parse it''"
| "Error (ConfigParseError name err) =
     ''Failed to parse YAML config for container '' @ name @ '', error: '' @ err"

text \<open>
  The loop \<^verbatim>\<open>for k, _ := range container.Labels\<close> visits the keys the map had when
  the loop started and deletes the visited key when it carries the prefix.
\<close>

definition strip_labels :: "(string, string) go_map \<Rightarrow> (string, string) go_map" where
  "strip_labels labels =
     foldl (\<lambda>m k. if HasPrefix k ''rocker-compose-'' then AList.delete k m else m)
       labels (map fst labels)"

text \<open>
  \<^verbatim>\<open>yaml.Unmarshal\<close> belongs to the YAML library and is the parameter \<open>Unmarshal\<close>:
  it returns the parsed container, or the message of its error. The function returns
  Go's pair of a container pointer and an error.
\<close>

definition NewContainerConfigFromDocker ::
  "(string \<Rightarrow> string + ('rp, 'cn) ConfigContainer) \<Rightarrow> docker_Container
     \<Rightarrow> ('rp, 'cn) ConfigContainer nilable \<times> error nilable" where
  "NewContainerConfigFromDocker Unmarshal apiContainer =
     (case map_index (cfg_Labels (ct_Config apiContainer)) ''rocker-compose-config'' of
        None \<Rightarrow> (nil, val ConfigMissing)
      | Some yamlData \<Rightarrow>
          (case Unmarshal yamlData of
             Inl err \<Rightarrow> (nil, val (ConfigParseError (ct_Name apiContainer) err))
           | Inr container \<Rightarrow>
               (let container =
                  (if Labels container \<noteq> nil
                   then container\<lparr>Labels := val (strip_labels (elems (Labels container)))\<rparr>
                   else container)
                in (val container, nil))))"

section \<open>The general configuration: \<^verbatim>\<open>GetApiConfig\<close>\<close>

text \<open>
  The statements of the function in their order; \<open>apiConfig\<close> is the structure built
  so far. \<^verbatim>\<open>fmt.Sprintf("%s=%s", key, val)\<close> is the concatenation of the key, an equals
  sign and the value. The maps the function creates itself are never nil when it
  writes to them.
\<close>

definition GetApiConfig :: "('rp, 'cn) ConfigContainer \<Rightarrow> docker_Config option" where
  "GetApiConfig config = do {
     let apiConfig = zero_Config\<lparr>cfg_Entrypoint := Entrypoint config,
                                cfg_Labels := Labels config\<rparr>;
     apiConfig \<leftarrow> (if Cmd config \<noteq> nil
                   then do { cmd \<leftarrow> deref (Cmd config);
                             Some (apiConfig\<lparr>cfg_Cmd := Parts cmd\<rparr>) }
                   else Some apiConfig);
     apiConfig \<leftarrow> (if Image' config \<noteq> nil
                   then do { v \<leftarrow> deref (Image' config);
                             Some (apiConfig\<lparr>cfg_Image := v\<rparr>) }
                   else Some apiConfig);
     apiConfig \<leftarrow> (if Hostname config \<noteq> nil
                   then do { v \<leftarrow> deref (Hostname config);
                             Some (apiConfig\<lparr>cfg_Hostname := v\<rparr>) }
                   else Some apiConfig);
     apiConfig \<leftarrow> (if Domainname config \<noteq> nil
                   then do { v \<leftarrow> deref (Domainname config);
                             Some (apiConfig\<lparr>cfg_Domainname := v\<rparr>) }
                   else Some apiConfig);
     apiConfig \<leftarrow> (if Workdir config \<noteq> nil
                   then do { v \<leftarrow> deref (Workdir config);
                             Some (apiConfig\<lparr>cfg_WorkingDir := v\<rparr>) }
                   else Some apiConfig);
     apiConfig \<leftarrow> (if User config \<noteq> nil
                   then do { v \<leftarrow> deref (User config);
                             Some (apiConfig\<lparr>cfg_User := v\<rparr>) }
                   else Some apiConfig);
     let apiConfig = (if Memory config \<noteq> nil
                      then apiConfig\<lparr>cfg_Memory := Int64 (Memory config)\<rparr>
                      else apiConfig);
     let apiConfig = (if MemorySwap config \<noteq> nil
                      then apiConfig\<lparr>cfg_MemorySwap := Int64 (MemorySwap config)\<rparr>
                      else apiConfig);
     apiConfig \<leftarrow> (if CpusetCpus config \<noteq> nil
                   then do { v \<leftarrow> deref (CpusetCpus config);
                             Some (apiConfig\<lparr>cfg_CPUSet := v\<rparr>) }
                   else Some apiConfig);
     apiConfig \<leftarrow> (if CpuShares config \<noteq> nil
                   then do { v \<leftarrow> deref (CpuShares config);
                             Some (apiConfig\<lparr>cfg_CPUShares := v\<rparr>) }
                   else Some apiConfig);
     apiConfig \<leftarrow> (if NetworkDisabled config \<noteq> nil
                   then do { v \<leftarrow> deref (NetworkDisabled config);
                             Some (apiConfig\<lparr>cfg_NetworkDisabled := v\<rparr>) }
                   else Some apiConfig);
     let apiConfig = (if Expose config \<noteq> nil
                      then apiConfig\<lparr>cfg_ExposedPorts :=
                             val (foldl (\<lambda>ports portBinding. insert portBinding ports)
                                    {} (elems (Expose config)))\<rparr>
                      else apiConfig);
     let apiConfig = (if Env config \<noteq> nil
                      then apiConfig\<lparr>cfg_Env :=
                             val (foldl (\<lambda>env (key, value). env @ [key @ ''='' @ value])
                                    [] (elems (Env config)))\<rparr>
                      else apiConfig);
     let apiConfig = (if Volumes config \<noteq> nil
                      then (let hostVolumes =
                                  foldl (\<lambda>hv volume. if \<not> Contains volume '':''
                                                      then insert volume hv else hv)
                                    {} (elems (Volumes config))
                            in if card hostVolumes > 0
                               then apiConfig\<lparr>cfg_Volumes := val hostVolumes\<rparr>
                               else apiConfig)
                      else apiConfig);
     Some apiConfig
   }"

section \<open>The host configuration: \<^verbatim>\<open>GetApiHostConfig\<close>\<close>

text \<open>
  Reading a key of the port-binding map that is not there gives the zero value, the
  nil slice, to which \<^verbatim>\<open>append\<close> adds as to an empty one.
\<close>

definition bindings_at ::
  "(string \<rightharpoonup> docker_PortBinding list) \<Rightarrow> string \<Rightarrow> docker_PortBinding list" where
  "bindings_at m key = (case m key of None \<Rightarrow> [] | Some bs \<Rightarrow> bs)"

text \<open>The body of the loop over \<^verbatim>\<open>config.Ports\<close>.\<close>

definition add_port ::
  "(string \<rightharpoonup> docker_PortBinding list) \<Rightarrow> PortBinding
     \<Rightarrow> (string \<rightharpoonup> docker_PortBinding list)" where
  "add_port portBindings configPort =
     (let key = Port configPort;
          binding = \<lparr>pb_HostIP = HostIp configPort, pb_HostPort = HostPort configPort\<rparr>;
          portBindings = (if portBindings key = None then portBindings(key \<mapsto> [])
                          else portBindings)
      in portBindings(key \<mapsto> bindings_at portBindings key @ [binding]))"

text \<open>
  Modelled from the spec: the methods \<^verbatim>\<open>RestartPolicy.ToDockerApi\<close> and
  \<^verbatim>\<open>ContainerName.String\<close> are declared outside \<^verbatim>\<open>config_convert.go\<close>. The spec
  says that the restart policy is converted by its own rule, that a link or
  volumes-from entry is rendered to a string, and that the projection has no failure
  path; it does not say what the results are. So the two methods are the parameters
  \<open>ToDockerApi\<close> and \<open>String\<close>, functions that return on every argument.
  \<^verbatim>\<open>ToDockerApi\<close> and \<^verbatim>\<open>Int64\<close> are called on the pointers \<^verbatim>\<open>config.Restart\<close>,
  \<^verbatim>\<open>config.Memory\<close> and \<^verbatim>\<open>config.MemorySwap\<close> whether they are nil or not.
\<close>

definition GetApiHostConfig ::
  "('rp nilable \<Rightarrow> docker_RestartPolicy) \<Rightarrow> ('cn \<Rightarrow> string)
     \<Rightarrow> ('rp, 'cn) ConfigContainer \<Rightarrow> docker_HostConfig option" where
  "GetApiHostConfig ToDockerApi String config = do {
     let hostConfig = zero_HostConfig\<lparr>hc_DNS := Dns config,
                                      hc_ExtraHosts := AddHost config,
                                      hc_RestartPolicy := ToDockerApi (Restart config),
                                      hc_Memory := Int64 (Memory config),
                                      hc_MemorySwap := Int64 (MemorySwap config)\<rparr>;
     hostConfig \<leftarrow> (if Net config \<noteq> nil
                    then do { v \<leftarrow> deref (Net config);
                              Some (hostConfig\<lparr>hc_NetworkMode := v\<rparr>) }
                    else Some hostConfig);
     hostConfig \<leftarrow> (if Pid config \<noteq> nil
                    then do { v \<leftarrow> deref (Pid config);
                              Some (hostConfig\<lparr>hc_PidMode := v\<rparr>) }
                    else Some hostConfig);
     hostConfig \<leftarrow> (if CpusetCpus config \<noteq> nil
                    then do { v \<leftarrow> deref (CpusetCpus config);
                              Some (hostConfig\<lparr>hc_CPUSet := v\<rparr>) }
                    else Some hostConfig);
     let binds = foldl (\<lambda>binds volume. if Contains volume '':''
                                         then binds @ [volume] else binds)
                   [] (elems (Volumes config));
     let hostConfig = (if length binds > 0 then hostConfig\<lparr>hc_Binds := val binds\<rparr>
                       else hostConfig);
     hostConfig \<leftarrow> (if Privileged config \<noteq> nil
                    then do { v \<leftarrow> deref (Privileged config);
                              Some (hostConfig\<lparr>hc_Privileged := v\<rparr>) }
                    else Some hostConfig);
     hostConfig \<leftarrow> (if PublishAllPorts config \<noteq> nil
                    then do { v \<leftarrow> deref (PublishAllPorts config);
                              Some (hostConfig\<lparr>hc_PublishAllPorts := v\<rparr>) }
                    else Some hostConfig);
     let hostConfig = (if len (Ports config) > 0
                       then hostConfig\<lparr>hc_PortBindings :=
                              val (foldl add_port Map.empty (elems (Ports config)))\<rparr>
                       else hostConfig);
     let hostConfig = (if len (Links config) > 0
                       then hostConfig\<lparr>hc_Links :=
                              val (foldl (\<lambda>links link. links @ [String link])
                                     [] (elems (Links config)))\<rparr>
                       else hostConfig);
     let hostConfig = (if len (VolumesFrom config) > 0
                       then hostConfig\<lparr>hc_VolumesFrom :=
                              val (foldl (\<lambda>vs volume. vs @ [String volume])
                                     [] (elems (VolumesFrom config)))\<rparr>
                       else hostConfig);
     let hostConfig = (if len (Ulimits config) > 0
                       then hostConfig\<lparr>hc_Ulimits :=
                              val (foldl (\<lambda>us ulimit. us @ [\<lparr>ul_Name = Name ulimit,
                                                                ul_Soft = Soft ulimit,
                                                                ul_Hard = Hard ulimit\<rparr>])
                                     [] (elems (Ulimits config)))\<rparr>
                       else hostConfig);
     Some hostConfig
   }"

section \<open>Example inputs\<close>

text \<open>\<^verbatim>\<open>ConfigContainer{}\<close>, a specification with every field absent, for a repository
  whose restart policies carry nothing and whose container names are strings.\<close>

definition zero_ConfigContainer :: "(unit, string) ConfigContainer" where
  "zero_ConfigContainer =
     \<lparr>Image' = nil, Cmd = nil, Entrypoint = nil, Hostname = nil, Domainname = nil,
      Workdir = nil, User = nil, Memory = nil, MemorySwap = nil, CpusetCpus = nil,
      CpuShares = nil, NetworkDisabled = nil, Expose = nil, Env = nil, Volumes = nil,
      Labels = nil, Dns = nil, AddHost = nil, Restart = nil, Net = nil, Pid = nil,
      Privileged = nil, PublishAllPorts = nil, Ports = nil, Links = nil,
      VolumesFrom = nil, Ulimits = nil\<rparr>"

text \<open>The examples of the specification's section on testable properties, in one
  container: two volumes, two environment entries, two bindings of port 80, a memory
  limit of 64 MiB, and labels of which one is reserved.\<close>

definition example_config :: "(unit, string) ConfigContainer" where
  "example_config = zero_ConfigContainer
     \<lparr>Image' := val ''busybox'',
      Memory := val 67108864,
      Privileged := val True,
      Env := val [(''A'', ''1''), (''B'', ''2'')],
      Volumes := val [''/data'', ''/host:/data''],
      Labels := val [(''app'', ''web''), (''rocker-compose-id'', ''c1'')],
      Ports := val [\<lparr>Port = ''80/tcp'', HostIp = ''0.0.0.0'', HostPort = ''8080''\<rparr>,
                    \<lparr>Port = ''80/tcp'', HostIp = ''0.0.0.0'', HostPort = ''8081''\<rparr>]\<rparr>"

definition duplicate_volumes_config :: "(unit, string) ConfigContainer" where
  "duplicate_volumes_config = zero_ConfigContainer
     \<lparr>Volumes := val [''/data'', ''/data'', ''/host:/data'', ''/host:/data'']\<rparr>"

definition example_ToDockerApi :: "unit nilable \<Rightarrow> docker_RestartPolicy" where
  "example_ToDockerApi r = \<lparr>rp_Name = [], rp_MaximumRetryCount = 0\<rparr>"

definition example_String :: "string \<Rightarrow> string" where
  "example_String name = name"

text \<open>A stand-in for the YAML parser: it reads one document as \<open>example_config\<close>
  and rejects every other payload.\<close>

definition example_Unmarshal :: "string \<Rightarrow> string + (unit, string) ConfigContainer" where
  "example_Unmarshal yamlData =
     (if yamlData = ''image: busybox'' then Inr example_config
      else Inl ''yaml: unmarshal errors'')"

text \<open>Three descriptors: one that carries the document, one without labels, one whose
  reserved label does not parse.\<close>

definition managed_container :: docker_Container where
  "managed_container =
     \<lparr>ct_Name = ''/web'',
      ct_Config = zero_Config\<lparr>cfg_Labels :=
        val [(''rocker-compose-config'', ''image: busybox''), (''app'', ''web'')]\<rparr>\<rparr>"

definition unmanaged_container :: docker_Container where
  "unmanaged_container = \<lparr>ct_Name = ''/db'', ct_Config = zero_Config\<rparr>"

definition broken_container :: docker_Container where
  "broken_container =
     \<lparr>ct_Name = ''/old'',
      ct_Config = zero_Config\<lparr>cfg_Labels := val [(''rocker-compose-config'', ''{'')]\<rparr>\<rparr>"

section \<open>Auxiliary facts\<close>

text \<open>Each guarded statement of the two projections, as one update of the structure
  built so far.\<close>

lemma cfg_stmts:
  "\<And>p r. (if p \<noteq> nil then deref p \<bind> (\<lambda>cmd. Some (r\<lparr>cfg_Cmd := Parts cmd\<rparr>)) else Some r)
     = Some (cfg_Cmd_update (\<lambda>old. case p of nil \<Rightarrow> old | val cmd \<Rightarrow> Parts cmd) r)"
  "\<And>p r. (if p \<noteq> nil then deref p \<bind> (\<lambda>v. Some (r\<lparr>cfg_Image := v\<rparr>)) else Some r)
     = Some (cfg_Image_update (\<lambda>old. case p of nil \<Rightarrow> old | val v \<Rightarrow> v) r)"
  "\<And>p r. (if p \<noteq> nil then deref p \<bind> (\<lambda>v. Some (r\<lparr>cfg_Hostname := v\<rparr>)) else Some r)
     = Some (cfg_Hostname_update (\<lambda>old. case p of nil \<Rightarrow> old | val v \<Rightarrow> v) r)"
  "\<And>p r. (if p \<noteq> nil then deref p \<bind> (\<lambda>v. Some (r\<lparr>cfg_Domainname := v\<rparr>)) else Some r)
     = Some (cfg_Domainname_update (\<lambda>old. case p of nil \<Rightarrow> old | val v \<Rightarrow> v) r)"
  "\<And>p r. (if p \<noteq> nil then deref p \<bind> (\<lambda>v. Some (r\<lparr>cfg_WorkingDir := v\<rparr>)) else Some r)
     = Some (cfg_WorkingDir_update (\<lambda>old. case p of nil \<Rightarrow> old | val v \<Rightarrow> v) r)"
  "\<And>p r. (if p \<noteq> nil then deref p \<bind> (\<lambda>v. Some (r\<lparr>cfg_User := v\<rparr>)) else Some r)
     = Some (cfg_User_update (\<lambda>old. case p of nil \<Rightarrow> old | val v \<Rightarrow> v) r)"
  "\<And>p r. (if p \<noteq> nil then deref p \<bind> (\<lambda>v. Some (r\<lparr>cfg_CPUSet := v\<rparr>)) else Some r)
     = Some (cfg_CPUSet_update (\<lambda>old. case p of nil \<Rightarrow> old | val v \<Rightarrow> v) r)"
  "\<And>p r. (if p \<noteq> nil then deref p \<bind> (\<lambda>v. Some (r\<lparr>cfg_CPUShares := v\<rparr>)) else Some r)
     = Some (cfg_CPUShares_update (\<lambda>old. case p of nil \<Rightarrow> old | val v \<Rightarrow> v) r)"
  "\<And>p r. (if p \<noteq> nil then deref p \<bind> (\<lambda>v. Some (r\<lparr>cfg_NetworkDisabled := v\<rparr>)) else Some r)
     = Some (cfg_NetworkDisabled_update (\<lambda>old. case p of nil \<Rightarrow> old | val v \<Rightarrow> v) r)"
  subgoal for p r by (cases p) simp_all
  subgoal for p r by (cases p) simp_all
  subgoal for p r by (cases p) simp_all
  subgoal for p r by (cases p) simp_all
  subgoal for p r by (cases p) simp_all
  subgoal for p r by (cases p) simp_all
  subgoal for p r by (cases p) simp_all
  subgoal for p r by (cases p) simp_all
  subgoal for p r by (cases p) simp_all
  done

lemma cfg_ifs:
  "\<And>c g r. (if c then cfg_Memory_update g r else r) = cfg_Memory_update (\<lambda>old. if c then g old else old) r"
  "\<And>c g r. (if c then cfg_MemorySwap_update g r else r) = cfg_MemorySwap_update (\<lambda>old. if c then g old else old) r"
  "\<And>c g r. (if c then cfg_ExposedPorts_update g r else r) = cfg_ExposedPorts_update (\<lambda>old. if c then g old else old) r"
  "\<And>c g r. (if c then cfg_Env_update g r else r) = cfg_Env_update (\<lambda>old. if c then g old else old) r"
  "\<And>c g r. (if c then cfg_Volumes_update g r else r) = cfg_Volumes_update (\<lambda>old. if c then g old else old) r"
  by simp_all

lemma foldl_insert: "foldl (\<lambda>s x. insert x s) s xs = s \<union> set xs"
  by (induction xs arbitrary: s) auto

lemma foldl_insert_if: "foldl (\<lambda>s x. if P x then insert x s else s) s xs = s \<union> {x \<in> set xs. P x}"
  by (induction xs arbitrary: s) auto

lemma foldl_append_if: "foldl (\<lambda>acc x. if P x then acc @ [x] else acc) acc xs = acc @ filter P xs"
  by (induction xs arbitrary: acc) auto

lemma foldl_append_map: "foldl (\<lambda>acc x. acc @ [f x]) acc xs = acc @ map f xs"
  by (induction xs arbitrary: acc) auto

lemma foldl_append_map_prod:
  "foldl (\<lambda>acc (k, v). acc @ [f k v]) acc xs = acc @ map (\<lambda>(k, v). f k v) xs"
  by (induction xs arbitrary: acc) auto

lemma Contains_single: "Contains s [c] \<longleftrightarrow> c \<in> set s"
  by (induction s) (auto simp: HasPrefix_def)

lemma GetApiConfig_closed:
  "GetApiConfig config = Some
     \<lparr>cfg_Hostname = (case Hostname config of nil \<Rightarrow> [] | val v \<Rightarrow> v),
      cfg_Domainname = (case Domainname config of nil \<Rightarrow> [] | val v \<Rightarrow> v),
      cfg_User = (case User config of nil \<Rightarrow> [] | val v \<Rightarrow> v),
      cfg_Memory = (if Memory config \<noteq> nil then Int64 (Memory config) else 0),
      cfg_MemorySwap = (if MemorySwap config \<noteq> nil then Int64 (MemorySwap config) else 0),
      cfg_CPUShares = (case CpuShares config of nil \<Rightarrow> 0 | val v \<Rightarrow> v),
      cfg_CPUSet = (case CpusetCpus config of nil \<Rightarrow> [] | val v \<Rightarrow> v),
      cfg_ExposedPorts = (if Expose config \<noteq> nil then val (set (elems (Expose config))) else nil),
      cfg_Env = (if Env config \<noteq> nil
                 then val (map (\<lambda>(key, value). key @ ''='' @ value) (elems (Env config)))
                 else nil),
      cfg_Cmd = (case Cmd config of nil \<Rightarrow> nil | val cmd \<Rightarrow> Parts cmd),
      cfg_Image = (case Image' config of nil \<Rightarrow> [] | val v \<Rightarrow> v),
      cfg_Volumes = (if Volumes config \<noteq> nil
                     then if 0 < card {v \<in> set (elems (Volumes config)). \<not> Contains v '':''}
                          then val {v \<in> set (elems (Volumes config)). \<not> Contains v '':''}
                          else nil
                     else nil),
      cfg_WorkingDir = (case Workdir config of nil \<Rightarrow> [] | val v \<Rightarrow> v),
      cfg_Entrypoint = Entrypoint config,
      cfg_NetworkDisabled = (case NetworkDisabled config of nil \<Rightarrow> False | val v \<Rightarrow> v),
      cfg_Labels = Labels config\<rparr>"
  unfolding GetApiConfig_def
  apply (simp only: cfg_stmts cfg_ifs)
  apply (simp only: Let_def bind.bind_lunit)
  apply (simp only: cfg_ifs)
  apply (simp add: zero_Config_def foldl_insert foldl_insert_if foldl_append_map_prod split del: if_split cong: if_cong)
  done

lemma hc_stmts:
  "\<And>p r. (if p \<noteq> nil then deref p \<bind> (\<lambda>v. Some (r\<lparr>hc_NetworkMode := v\<rparr>)) else Some r)
     = Some (hc_NetworkMode_update (\<lambda>old. case p of nil \<Rightarrow> old | val v \<Rightarrow> v) r)"
  "\<And>p r. (if p \<noteq> nil then deref p \<bind> (\<lambda>v. Some (r\<lparr>hc_PidMode := v\<rparr>)) else Some r)
     = Some (hc_PidMode_update (\<lambda>old. case p of nil \<Rightarrow> old | val v \<Rightarrow> v) r)"
  "\<And>p r. (if p \<noteq> nil then deref p \<bind> (\<lambda>v. Some (r\<lparr>hc_CPUSet := v\<rparr>)) else Some r)
     = Some (hc_CPUSet_update (\<lambda>old. case p of nil \<Rightarrow> old | val v \<Rightarrow> v) r)"
  "\<And>p r. (if p \<noteq> nil then deref p \<bind> (\<lambda>v. Some (r\<lparr>hc_Privileged := v\<rparr>)) else Some r)
     = Some (hc_Privileged_update (\<lambda>old. case p of nil \<Rightarrow> old | val v \<Rightarrow> v) r)"
  "\<And>p r. (if p \<noteq> nil then deref p \<bind> (\<lambda>v. Some (r\<lparr>hc_PublishAllPorts := v\<rparr>)) else Some r)
     = Some (hc_PublishAllPorts_update (\<lambda>old. case p of nil \<Rightarrow> old | val v \<Rightarrow> v) r)"
  subgoal for p r by (cases p) simp_all
  subgoal for p r by (cases p) simp_all
  subgoal for p r by (cases p) simp_all
  subgoal for p r by (cases p) simp_all
  subgoal for p r by (cases p) simp_all
  done

lemma hc_ifs:
  "\<And>c g r. (if c then hc_Binds_update g r else r) = hc_Binds_update (\<lambda>old. if c then g old else old) r"
  "\<And>c g r. (if c then hc_PortBindings_update g r else r) = hc_PortBindings_update (\<lambda>old. if c then g old else old) r"
  "\<And>c g r. (if c then hc_Links_update g r else r) = hc_Links_update (\<lambda>old. if c then g old else old) r"
  "\<And>c g r. (if c then hc_VolumesFrom_update g r else r) = hc_VolumesFrom_update (\<lambda>old. if c then g old else old) r"
  "\<And>c g r. (if c then hc_Ulimits_update g r else r) = hc_Ulimits_update (\<lambda>old. if c then g old else old) r"
  by simp_all

lemma GetApiHostConfig_closed:
  "GetApiHostConfig ToDockerApi String config = Some
     \<lparr>hc_Binds = (if 0 < length (filter (\<lambda>v. Contains v '':'') (elems (Volumes config)))
                  then val (filter (\<lambda>v. Contains v '':'') (elems (Volumes config)))
                  else nil),
      hc_Links = (if 0 < len (Links config) then val (map String (elems (Links config)))
                  else nil),
      hc_PortBindings = (if 0 < len (Ports config)
                         then val (foldl add_port Map.empty (elems (Ports config)))
                         else nil),
      hc_Privileged = (case Privileged config of nil \<Rightarrow> False | val v \<Rightarrow> v),
      hc_PublishAllPorts = (case PublishAllPorts config of nil \<Rightarrow> False | val v \<Rightarrow> v),
      hc_DNS = Dns config,
      hc_ExtraHosts = AddHost config,
      hc_VolumesFrom = (if 0 < len (VolumesFrom config)
                        then val (map String (elems (VolumesFrom config))) else nil),
      hc_NetworkMode = (case Net config of nil \<Rightarrow> [] | val v \<Rightarrow> v),
      hc_PidMode = (case Pid config of nil \<Rightarrow> [] | val v \<Rightarrow> v),
      hc_RestartPolicy = ToDockerApi (Restart config),
      hc_Ulimits = (if 0 < len (Ulimits config)
                    then val (map (\<lambda>ulimit. \<lparr>ul_Name = Name ulimit, ul_Soft = Soft ulimit,
                                             ul_Hard = Hard ulimit\<rparr>)
                                (elems (Ulimits config)))
                    else nil),
      hc_Memory = Int64 (Memory config),
      hc_MemorySwap = Int64 (MemorySwap config),
      hc_CPUSet = (case CpusetCpus config of nil \<Rightarrow> [] | val v \<Rightarrow> v)\<rparr>"
  unfolding GetApiHostConfig_def
  apply (simp only: hc_stmts hc_ifs)
  apply (simp only: Let_def bind.bind_lunit)
  apply (simp add: zero_HostConfig_def foldl_append_if foldl_append_map split del: if_split cong: if_cong)
  done


lemma strip_labels_aux:
  "foldl (\<lambda>m k. if HasPrefix k pre then AList.delete k m else m) labels ks =
     filter (\<lambda>(k, v). \<not> (k \<in> set ks \<and> HasPrefix k pre)) labels"
proof (induction ks arbitrary: labels)
  case Nil
  show ?case by simp
next
  case (Cons k ks)
  show ?case
  proof (cases "HasPrefix k pre")
    case True
    have "filter (\<lambda>(k', v). \<not> (k' \<in> set ks \<and> HasPrefix k' pre)) (AList.delete k labels) =
          filter (\<lambda>(k', v). \<not> (k' \<in> set (k # ks) \<and> HasPrefix k' pre)) labels"
      using True by (auto simp: AList.delete_eq intro!: filter_cong)
    with True Cons.IH [of "AList.delete k labels"] show ?thesis by simp
  next
    case False
    have "filter (\<lambda>(k', v). \<not> (k' \<in> set ks \<and> HasPrefix k' pre)) labels =
          filter (\<lambda>(k', v). \<not> (k' \<in> set (k # ks) \<and> HasPrefix k' pre)) labels"
      using False by (auto intro!: filter_cong)
    with False Cons.IH [of labels] show ?thesis by simp
  qed
qed

lemma strip_labels_filter:
  "strip_labels labels = filter (\<lambda>(k, v). \<not> HasPrefix k ''rocker-compose-'') labels"
  unfolding strip_labels_def strip_labels_aux
  by (rule filter_cong) (auto simp: image_iff)

lemma map_of_filter_key:
  "P k \<Longrightarrow> map_of (filter (\<lambda>(k, v). P k) al) k = map_of al k"
  by (induction al) auto

lemma bindings_at_upd: "bindings_at (m(k \<mapsto> bs)) k' = (if k' = k then bs else bindings_at m k')"
  by (simp add: bindings_at_def)

lemma add_port_apply:
  "add_port m p key =
     (if key = Port p
      then Some (bindings_at m key @ [\<lparr>pb_HostIP = HostIp p, pb_HostPort = HostPort p\<rparr>])
      else m key)"
  by (simp add: add_port_def Let_def bindings_at_def)

lemma bindings_at_add_port:
  "bindings_at (add_port m p) key =
     (if key = Port p
      then bindings_at m key @ [\<lparr>pb_HostIP = HostIp p, pb_HostPort = HostPort p\<rparr>]
      else bindings_at m key)"
  by (simp add: bindings_at_def add_port_apply)

lemma foldl_add_port:
  "foldl add_port m ps key =
     (if key \<in> Port ` set ps
      then Some (bindings_at m key @
                 map (\<lambda>p. \<lparr>pb_HostIP = HostIp p, pb_HostPort = HostPort p\<rparr>)
                   (filter (\<lambda>p. Port p = key) ps))
      else m key)"
proof (induction ps arbitrary: m)
  case Nil
  show ?case by simp
next
  case (Cons p ps)
  have "foldl add_port m (p # ps) key = foldl add_port (add_port m p) ps key"
    by simp
  also have "\<dots> =
     (if key \<in> Port ` set ps
      then Some (bindings_at (add_port m p) key @
                 map (\<lambda>p. \<lparr>pb_HostIP = HostIp p, pb_HostPort = HostPort p\<rparr>)
                   (filter (\<lambda>p. Port p = key) ps))
      else add_port m p key)"
    by (rule Cons.IH)
  finally have eq: "foldl add_port m (p # ps) key =
     (if key \<in> Port ` set ps
      then Some (bindings_at (add_port m p) key @
                 map (\<lambda>p. \<lparr>pb_HostIP = HostIp p, pb_HostPort = HostPort p\<rparr>)
                   (filter (\<lambda>p. Port p = key) ps))
      else add_port m p key)" .
  have a: "add_port m p key =
     (if key = Port p
      then Some (bindings_at m key @ [\<lparr>pb_HostIP = HostIp p, pb_HostPort = HostPort p\<rparr>])
      else m key)"
    by (rule add_port_apply)
  have b: "bindings_at (add_port m p) key =
     (if key = Port p
      then bindings_at m key @ [\<lparr>pb_HostIP = HostIp p, pb_HostPort = HostPort p\<rparr>]
      else bindings_at m key)"
    by (rule bindings_at_add_port)
  have c: "key \<notin> Port ` set ps \<Longrightarrow> filter (\<lambda>p. Port p = key) ps = []"
    by (auto simp: filter_empty_conv)
  show ?case
    unfolding eq a b using c by (cases "key = Port p") auto
qed

lemma Int64_guard: "(if p \<noteq> nil then Int64 p else 0) = Int64 p"
  by (cases p) simp_all

lemma Int64_case: "Int64 p = (case p of nil \<Rightarrow> 0 | val m \<Rightarrow> m)"
  by (cases p) simp_all

lemma zero_fields:
  "cfg_Hostname zero_Config = []" "cfg_Domainname zero_Config = []"
  "cfg_WorkingDir zero_Config = []" "cfg_User zero_Config = []"
  "cfg_Memory zero_Config = 0" "cfg_MemorySwap zero_Config = 0"
  "cfg_CPUSet zero_Config = []" "cfg_CPUShares zero_Config = 0"
  "cfg_NetworkDisabled zero_Config = False"
  "hc_Memory zero_HostConfig = 0" "hc_MemorySwap zero_HostConfig = 0"
  "hc_CPUSet zero_HostConfig = []" "hc_Privileged zero_HostConfig = False"
  "hc_PublishAllPorts zero_HostConfig = False"
  by (simp_all add: zero_Config_def zero_HostConfig_def)

lemmas ex_defs = example_config_def zero_ConfigContainer_def duplicate_volumes_config_def

section \<open>Extraction\<close>

text \<open>
  Claim C4. Extraction returns the error \<open>ConfigMissing\<close> exactly when the label map of
  the descriptor has no key \<^verbatim>\<open>rocker-compose-config\<close>. When the key is there and its
  value does not deserialize, extraction returns \<open>ConfigParseError\<close> with the name of
  the container and the failure of the parser. Whenever an error is returned, the
  container pointer returned with it is nil.
\<close>

theorem C4_extraction_errors:
  "(snd (NewContainerConfigFromDocker Unmarshal apiContainer) = val ConfigMissing \<longleftrightarrow>
      map_index (cfg_Labels (ct_Config apiContainer)) ''rocker-compose-config'' = None) \<and>
   (\<forall>yamlData err.
      map_index (cfg_Labels (ct_Config apiContainer)) ''rocker-compose-config'' = Some yamlData
        \<and> Unmarshal yamlData = Inl err \<longrightarrow>
      NewContainerConfigFromDocker Unmarshal apiContainer =
        (nil, val (ConfigParseError (ct_Name apiContainer) err))) \<and>
   (snd (NewContainerConfigFromDocker Unmarshal apiContainer) \<noteq> nil \<longrightarrow>
      fst (NewContainerConfigFromDocker Unmarshal apiContainer) = nil)"
  by (simp add: NewContainerConfigFromDocker_def Let_def split: option.split sum.split)

theorem C4_extraction_errors_witness:
  "NewContainerConfigFromDocker example_Unmarshal unmanaged_container = (nil, val ConfigMissing) \<and>
   NewContainerConfigFromDocker example_Unmarshal broken_container =
     (nil, val (ConfigParseError ''/old'' ''yaml: unmarshal errors''))"
proof -
  have absent: "map_index (cfg_Labels (ct_Config unmanaged_container)) ''rocker-compose-config'' = None"
    by (simp add: unmanaged_container_def zero_Config_def)
  have present: "map_index (cfg_Labels (ct_Config broken_container)) ''rocker-compose-config'' = Some ''{''"
    by (simp add: broken_container_def zero_Config_def)
  have bad: "example_Unmarshal ''{'' = Inl ''yaml: unmarshal errors''"
    by (simp add: example_Unmarshal_def)
  have name: "ct_Name broken_container = ''/old''"
    by (simp add: broken_container_def)
  from C4_extraction_errors [of example_Unmarshal unmanaged_container] absent
  have "snd (NewContainerConfigFromDocker example_Unmarshal unmanaged_container) = val ConfigMissing"
    and "fst (NewContainerConfigFromDocker example_Unmarshal unmanaged_container) = nil"
    by simp_all
  moreover from C4_extraction_errors [of example_Unmarshal broken_container] present bad name
  have "NewContainerConfigFromDocker example_Unmarshal broken_container =
     (nil, val (ConfigParseError ''/old'' ''yaml: unmarshal errors''))"
    by simp
  ultimately show ?thesis
    by (simp add: prod_eq_iff)
qed

text \<open>
  Claim C5. When the reserved label of the descriptor deserializes, extraction returns a
  container and no error; no key of the container's label map starts with
  \<^verbatim>\<open>rocker-compose-\<close>; every key without that prefix has the value the parser gave
  it; the label map is the parsed one without the entries under the prefix, and it is
  nil exactly when the parsed one is.
\<close>

theorem C5_reserved_labels_stripped:
  assumes "map_index (cfg_Labels (ct_Config apiContainer)) ''rocker-compose-config'' = Some yamlData"
    and "Unmarshal yamlData = Inr parsed"
  shows "\<exists>container.
     NewContainerConfigFromDocker Unmarshal apiContainer = (val container, nil) \<and>
     (\<forall>k \<in> fst ` set (elems (Labels container)). \<not> HasPrefix k ''rocker-compose-'') \<and>
     (\<forall>k. \<not> HasPrefix k ''rocker-compose-'' \<longrightarrow>
          map_index (Labels container) k = map_index (Labels parsed) k) \<and>
     elems (Labels container) =
       filter (\<lambda>(k, v). \<not> HasPrefix k ''rocker-compose-'') (elems (Labels parsed)) \<and>
     (Labels container = nil \<longleftrightarrow> Labels parsed = nil)"
proof (cases "Labels parsed")
  case nil
  with assms show ?thesis
    by (simp add: NewContainerConfigFromDocker_def)
next
  case (val labels)
  with assms have "NewContainerConfigFromDocker Unmarshal apiContainer =
      (val (parsed\<lparr>Labels := val (strip_labels labels)\<rparr>), nil)"
    by (simp add: NewContainerConfigFromDocker_def)
  with val show ?thesis
    by (auto simp: strip_labels_filter map_of_filter_key)
qed

theorem C5_reserved_labels_stripped_witness:
  "\<exists>container.
     NewContainerConfigFromDocker example_Unmarshal managed_container = (val container, nil) \<and>
     Labels container = val [(''app'', ''web'')]"
proof -
  have present: "map_index (cfg_Labels (ct_Config managed_container)) ''rocker-compose-config''
                   = Some ''image: busybox''"
    by (simp add: managed_container_def)
  have parsed: "example_Unmarshal ''image: busybox'' = Inr example_config"
    by (simp add: example_Unmarshal_def)
  from C5_reserved_labels_stripped [where Unmarshal = example_Unmarshal, OF present parsed]
  obtain container where
    res: "NewContainerConfigFromDocker example_Unmarshal managed_container = (val container, nil)"
    and labels: "elems (Labels container) =
       filter (\<lambda>(k, v). \<not> HasPrefix k ''rocker-compose-'') (elems (Labels example_config))"
    and non_nil: "Labels container = nil \<longleftrightarrow> Labels example_config = nil"
    by blast
  from labels have "elems (Labels container) = [(''app'', ''web'')]"
    by (simp add: ex_defs HasPrefix_def)
  moreover from non_nil have "Labels container \<noteq> nil"
    by (simp add: ex_defs)
  ultimately have "Labels container = val [(''app'', ''web'')]"
    by (cases "Labels container") simp_all
  with res show ?thesis by blast
qed

section \<open>The two projections\<close>

text \<open>
  Claim C1. A Go structure has no unset state apart from the zero value, so a field that
  is left alone holds what the field of the fresh structure \<^verbatim>\<open>docker.Config{}\<close> or
  \<^verbatim>\<open>docker.HostConfig{}\<close> holds. For every container specification both projections
  return, and each optional scalar (hostname, domain name, working directory, user,
  memory, memory swap, CPU set, CPU shares, network disabled, privileged, publish all
  ports) appears in the general configuration and in the host configuration, wherever
  the structure has the field, as the field of the fresh structure when the scalar is
  absent and as the scalar's own value when it is present.
\<close>

theorem C1_absent_scalars_untouched:
  "\<exists>apiConfig hostConfig.
     GetApiConfig config = Some apiConfig \<and>
     GetApiHostConfig ToDockerApi String config = Some hostConfig \<and>
     cfg_Hostname apiConfig =
       (case Hostname config of nil \<Rightarrow> cfg_Hostname zero_Config | val v \<Rightarrow> v) \<and>
     cfg_Domainname apiConfig =
       (case Domainname config of nil \<Rightarrow> cfg_Domainname zero_Config | val v \<Rightarrow> v) \<and>
     cfg_WorkingDir apiConfig =
       (case Workdir config of nil \<Rightarrow> cfg_WorkingDir zero_Config | val v \<Rightarrow> v) \<and>
     cfg_User apiConfig =
       (case User config of nil \<Rightarrow> cfg_User zero_Config | val v \<Rightarrow> v) \<and>
     cfg_Memory apiConfig =
       (case Memory config of nil \<Rightarrow> cfg_Memory zero_Config | val m \<Rightarrow> m) \<and>
     cfg_MemorySwap apiConfig =
       (case MemorySwap config of nil \<Rightarrow> cfg_MemorySwap zero_Config | val m \<Rightarrow> m) \<and>
     cfg_CPUSet apiConfig =
       (case CpusetCpus config of nil \<Rightarrow> cfg_CPUSet zero_Config | val v \<Rightarrow> v) \<and>
     cfg_CPUShares apiConfig =
       (case CpuShares config of nil \<Rightarrow> cfg_CPUShares zero_Config | val v \<Rightarrow> v) \<and>
     cfg_NetworkDisabled apiConfig =
       (case NetworkDisabled config of nil \<Rightarrow> cfg_NetworkDisabled zero_Config
        | val v \<Rightarrow> v) \<and>
     hc_Memory hostConfig =
       (case Memory config of nil \<Rightarrow> hc_Memory zero_HostConfig | val m \<Rightarrow> m) \<and>
     hc_MemorySwap hostConfig =
       (case MemorySwap config of nil \<Rightarrow> hc_MemorySwap zero_HostConfig | val m \<Rightarrow> m) \<and>
     hc_CPUSet hostConfig =
       (case CpusetCpus config of nil \<Rightarrow> hc_CPUSet zero_HostConfig | val v \<Rightarrow> v) \<and>
     hc_Privileged hostConfig =
       (case Privileged config of nil \<Rightarrow> hc_Privileged zero_HostConfig | val v \<Rightarrow> v) \<and>
     hc_PublishAllPorts hostConfig =
       (case PublishAllPorts config of nil \<Rightarrow> hc_PublishAllPorts zero_HostConfig
        | val v \<Rightarrow> v)"
  unfolding GetApiConfig_closed GetApiHostConfig_closed zero_fields Int64_guard Int64.simps
  by (simp add: Int64_case)

theorem C1_absent_scalars_untouched_witness:
  "\<exists>apiConfig hostConfig.
     GetApiConfig example_config = Some apiConfig \<and>
     GetApiHostConfig example_ToDockerApi example_String example_config = Some hostConfig \<and>
     cfg_Hostname apiConfig = [] \<and> cfg_User apiConfig = [] \<and>
     cfg_Memory apiConfig = 67108864 \<and> cfg_MemorySwap apiConfig = 0 \<and>
     cfg_NetworkDisabled apiConfig = False \<and>
     hc_CPUSet hostConfig = [] \<and> hc_Privileged hostConfig = True \<and>
     hc_PublishAllPorts hostConfig = False"
  using C1_absent_scalars_untouched [of example_config example_ToDockerApi example_String]
  by (auto simp: ex_defs zero_fields)

text \<open>
  Claim C2. Both projections return a structure for every container specification,
  whichever of its fields are nil: every read through a pointer is behind a test that
  the pointer is not nil, and the two methods called on pointers that may be nil return
  on a nil receiver.
\<close>

theorem C2_projections_total:
  "(\<exists>apiConfig. GetApiConfig config = Some apiConfig) \<and>
   (\<exists>hostConfig. GetApiHostConfig ToDockerApi String config = Some hostConfig)"
  unfolding GetApiConfig_closed GetApiHostConfig_closed by simp

theorem C2_projections_total_witness:
  "(\<exists>apiConfig. GetApiConfig zero_ConfigContainer = Some apiConfig) \<and>
   (\<exists>hostConfig. GetApiHostConfig example_ToDockerApi example_String zero_ConfigContainer =
      Some hostConfig)"
  by (rule C2_projections_total [of zero_ConfigContainer example_ToDockerApi example_String])

text \<open>
  Claim C3. For every container specification the host configuration holds the same
  memory and memory-swap values as the general configuration: the byte count of the
  limit when it is present, and the value of the field of the fresh structure when it
  is absent.
\<close>

theorem C3_memory_resolved_alike:
  "\<exists>apiConfig hostConfig.
     GetApiConfig config = Some apiConfig \<and>
     GetApiHostConfig ToDockerApi String config = Some hostConfig \<and>
     hc_Memory hostConfig = cfg_Memory apiConfig \<and>
     hc_MemorySwap hostConfig = cfg_MemorySwap apiConfig \<and>
     cfg_Memory apiConfig =
       (case Memory config of nil \<Rightarrow> cfg_Memory zero_Config | val m \<Rightarrow> Int64 (val m)) \<and>
     hc_Memory hostConfig =
       (case Memory config of nil \<Rightarrow> hc_Memory zero_HostConfig | val m \<Rightarrow> Int64 (val m)) \<and>
     cfg_MemorySwap apiConfig =
       (case MemorySwap config of nil \<Rightarrow> cfg_MemorySwap zero_Config
        | val m \<Rightarrow> Int64 (val m)) \<and>
     hc_MemorySwap hostConfig =
       (case MemorySwap config of nil \<Rightarrow> hc_MemorySwap zero_HostConfig
        | val m \<Rightarrow> Int64 (val m))"
  unfolding GetApiConfig_closed GetApiHostConfig_closed zero_fields Int64_guard Int64.simps
  by (simp add: Int64_case)

theorem C3_memory_resolved_alike_witness:
  "\<exists>apiConfig hostConfig.
     GetApiConfig example_config = Some apiConfig \<and>
     GetApiHostConfig example_ToDockerApi example_String example_config = Some hostConfig \<and>
     cfg_Memory apiConfig = 67108864 \<and> hc_Memory hostConfig = 67108864 \<and>
     cfg_MemorySwap apiConfig = 0 \<and> hc_MemorySwap hostConfig = 0"
  using C3_memory_resolved_alike [of example_config example_ToDockerApi example_String]
  by (auto simp: ex_defs zero_fields)

text \<open>
  Claim C6. For a container specification with a volumes list, the volumes set of the
  general configuration is the set of the entries without a colon, and the field stays
  nil when there is none; the binds of the host configuration are the entries with a
  colon, unchanged and in the order of the list, and the field stays nil when there is
  none. Both sites classify an entry by whether it has a colon.
\<close>

theorem C6_volumes_classified:
  assumes "Volumes config = val vs"
  shows "\<exists>apiConfig hostConfig.
     GetApiConfig config = Some apiConfig \<and>
     GetApiHostConfig ToDockerApi String config = Some hostConfig \<and>
     cfg_Volumes apiConfig =
       (if filter (\<lambda>v. CHR '':'' \<notin> set v) vs = [] then nil
        else val (set (filter (\<lambda>v. CHR '':'' \<notin> set v) vs))) \<and>
     hc_Binds hostConfig =
       (if filter (\<lambda>v. CHR '':'' \<in> set v) vs = [] then nil
        else val (filter (\<lambda>v. CHR '':'' \<in> set v) vs))"
proof -
  have fin: "finite {v \<in> set vs. CHR '':'' \<notin> set v}"
    by simp
  have empty: "{v \<in> set vs. CHR '':'' \<notin> set v} = {} \<longleftrightarrow>
               filter (\<lambda>v. CHR '':'' \<notin> set v) vs = []"
    by (auto simp: filter_empty_conv)
  have set_eq: "set (filter (\<lambda>v. CHR '':'' \<notin> set v) vs) = {v \<in> set vs. CHR '':'' \<notin> set v}"
    by simp
  show ?thesis
    unfolding GetApiConfig_closed GetApiHostConfig_closed
    using assms fin empty
    by (simp add: Contains_single card_gt_0_iff set_eq del: set_filter)
qed

theorem C6_volumes_classified_witness:
  "\<exists>apiConfig hostConfig.
     GetApiConfig example_config = Some apiConfig \<and>
     GetApiHostConfig example_ToDockerApi example_String example_config = Some hostConfig \<and>
     cfg_Volumes apiConfig = val {''/data''} \<and>
     hc_Binds hostConfig = val [''/host:/data'']"
proof -
  have vols: "Volumes example_config = val [''/data'', ''/host:/data'']"
    by (simp add: ex_defs)
  from C6_volumes_classified [OF vols, of example_ToDockerApi example_String]
  show ?thesis by auto
qed

text \<open>
  Claim C7. When the environment map is present, the environment of the general
  configuration has one string \<^verbatim>\<open>KEY=VALUE\<close> for each entry of the map, in the order
  in which the loop visited the entries, so as a multiset it is the image of the map's
  entries and it has as many elements as the map; when the map is absent, the field
  stays nil.
\<close>

theorem C7_environment_rendered:
  "\<exists>apiConfig.
     GetApiConfig config = Some apiConfig \<and>
     (case Env config of
        nil \<Rightarrow> cfg_Env apiConfig = nil
      | val m \<Rightarrow>
          cfg_Env apiConfig = val (map (\<lambda>(key, value). key @ ''='' @ value) m) \<and>
          mset (elems (cfg_Env apiConfig)) =
            image_mset (\<lambda>(key, value). key @ ''='' @ value) (mset m) \<and>
          length (elems (cfg_Env apiConfig)) = length m)"
  unfolding GetApiConfig_closed
  by (cases "Env config") simp_all

theorem C7_environment_rendered_witness:
  "\<exists>apiConfig.
     GetApiConfig example_config = Some apiConfig \<and>
     cfg_Env apiConfig = val [''A=1'', ''B=2'']"
  using C7_environment_rendered [of example_config]
  by (auto simp: ex_defs)

text \<open>
  Claim C8. For a container specification with a non-empty list of port bindings, the
  port-binding map of the host configuration has exactly the declared ports as keys,
  and the value at a key is the host address and port of every declared entry with
  that port, in the order of the list; so a port declared \<open>n\<close> times has \<open>n\<close>
  bindings.
\<close>

theorem C8_port_bindings_grouped:
  assumes "Ports config = val ps" and "ps \<noteq> []"
  shows "\<exists>hostConfig portBindings.
     GetApiHostConfig ToDockerApi String config = Some hostConfig \<and>
     hc_PortBindings hostConfig = val portBindings \<and>
     (\<forall>key. portBindings key =
        (if key \<in> Port ` set ps
         then Some (map (\<lambda>p. \<lparr>pb_HostIP = HostIp p, pb_HostPort = HostPort p\<rparr>)
                      (filter (\<lambda>p. Port p = key) ps))
         else None)) \<and>
     (\<forall>key. length (bindings_at portBindings key) = length (filter (\<lambda>p. Port p = key) ps))"
proof -
  have none: "\<And>key. key \<notin> Port ` set ps \<Longrightarrow> filter (\<lambda>p. Port p = key) ps = []"
    by (auto simp: filter_empty_conv)
  show ?thesis
    unfolding GetApiHostConfig_closed
    using assms none
    by (simp add: len_def foldl_add_port bindings_at_def)
qed

theorem C8_port_bindings_grouped_witness:
  "\<exists>hostConfig portBindings.
     GetApiHostConfig example_ToDockerApi example_String example_config = Some hostConfig \<and>
     hc_PortBindings hostConfig = val portBindings \<and>
     portBindings ''80/tcp'' =
       Some [\<lparr>pb_HostIP = ''0.0.0.0'', pb_HostPort = ''8080''\<rparr>,
             \<lparr>pb_HostIP = ''0.0.0.0'', pb_HostPort = ''8081''\<rparr>] \<and>
     portBindings ''443/tcp'' = None"
proof -
  have ports: "Ports example_config =
     val [\<lparr>Port = ''80/tcp'', HostIp = ''0.0.0.0'', HostPort = ''8080''\<rparr>,
          \<lparr>Port = ''80/tcp'', HostIp = ''0.0.0.0'', HostPort = ''8081''\<rparr>]"
    by (simp add: ex_defs)
  have non_empty:
    "[\<lparr>Port = ''80/tcp'', HostIp = ''0.0.0.0'', HostPort = ''8080''\<rparr>,
      \<lparr>Port = ''80/tcp'', HostIp = ''0.0.0.0'', HostPort = ''8081''\<rparr>] \<noteq> []"
    by simp
  from C8_port_bindings_grouped [OF ports non_empty, of example_ToDockerApi example_String]
  obtain hostConfig portBindings where
    res: "GetApiHostConfig example_ToDockerApi example_String example_config = Some hostConfig"
      "hc_PortBindings hostConfig = val portBindings"
    and at: "\<And>key. portBindings key =
        (if key \<in> Port ` set [\<lparr>Port = ''80/tcp'', HostIp = ''0.0.0.0'', HostPort = ''8080''\<rparr>,
                                 \<lparr>Port = ''80/tcp'', HostIp = ''0.0.0.0'', HostPort = ''8081''\<rparr>]
         then Some (map (\<lambda>p. \<lparr>pb_HostIP = HostIp p, pb_HostPort = HostPort p\<rparr>)
                      (filter (\<lambda>p. Port p = key)
                         [\<lparr>Port = ''80/tcp'', HostIp = ''0.0.0.0'', HostPort = ''8080''\<rparr>,
                          \<lparr>Port = ''80/tcp'', HostIp = ''0.0.0.0'', HostPort = ''8081''\<rparr>]))
         else None)"
    by blast
  have "portBindings ''80/tcp'' =
       Some [\<lparr>pb_HostIP = ''0.0.0.0'', pb_HostPort = ''8080''\<rparr>,
             \<lparr>pb_HostIP = ''0.0.0.0'', pb_HostPort = ''8081''\<rparr>]"
    by (simp add: at)
  moreover have "portBindings ''443/tcp'' = None"
    by (simp add: at)
  ultimately show ?thesis using res by blast
qed

text \<open>
  Claim C10. For a container specification with a volumes list, the volumes set of the
  general configuration has one element for each distinct entry without a colon,
  however often it is declared, while the binds of the host configuration keep every
  entry with a colon as often as it is declared, in the order of the list.
\<close>

theorem C10_volumes_multiplicity:
  assumes "Volumes config = val vs"
  shows "\<exists>apiConfig hostConfig.
     GetApiConfig config = Some apiConfig \<and>
     GetApiHostConfig ToDockerApi String config = Some hostConfig \<and>
     card (case cfg_Volumes apiConfig of nil \<Rightarrow> {} | val s \<Rightarrow> s) =
       length (remdups (filter (\<lambda>v. \<not> Contains v '':'') vs)) \<and>
     elems (hc_Binds hostConfig) = filter (\<lambda>v. Contains v '':'') vs \<and>
     (\<forall>v. count_list (elems (hc_Binds hostConfig)) v =
          (if Contains v '':'' then count_list vs v else 0))"
proof -
  have card_eq: "card {v \<in> set vs. \<not> Contains v '':''} =
                 length (remdups (filter (\<lambda>v. \<not> Contains v '':'') vs))"
    by (simp add: length_remdups_card_conv)
  have cnt: "\<And>v. count_list (filter (\<lambda>v. Contains v '':'') vs) v =
                  (if Contains v '':'' then count_list vs v else 0)"
    by (induction vs) auto
  have nil_case: "filter (\<lambda>v. Contains v '':'') vs = [] \<Longrightarrow>
                  (\<forall>v. (if Contains v '':'' then count_list vs v else 0) = 0)"
    using cnt by (metis count_list.simps(1))
  show ?thesis
    unfolding GetApiConfig_closed GetApiHostConfig_closed
    using assms card_eq cnt nil_case
    by (auto simp: card_gt_0_iff simp del: set_filter)
qed

theorem C10_volumes_multiplicity_witness:
  "\<exists>apiConfig hostConfig.
     GetApiConfig duplicate_volumes_config = Some apiConfig \<and>
     GetApiHostConfig example_ToDockerApi example_String duplicate_volumes_config =
       Some hostConfig \<and>
     card (case cfg_Volumes apiConfig of nil \<Rightarrow> {} | val s \<Rightarrow> s) = 1 \<and>
     elems (hc_Binds hostConfig) = [''/host:/data'', ''/host:/data'']"
proof -
  have vols: "Volumes duplicate_volumes_config =
                val [''/data'', ''/data'', ''/host:/data'', ''/host:/data'']"
    by (simp add: ex_defs)
  from C10_volumes_multiplicity [OF vols, of example_ToDockerApi example_String]
  show ?thesis by (auto simp: HasPrefix_def)
qed

end
